theory Spec2Isabelle
  imports Complex_Main "HOL-Library.Char_ord" "HOL-Library.List_Lexorder"
begin

section \<open>Text\<close>

text \<open>
  A Python \<open>str\<close> is modelled as a \<^typ>\<open>string\<close> with one character per code point.
  Isabelle characters have eight bits, so the model covers the code points below 256
  (Latin-1); every phrase of the term dictionary lies in that range. Accented letters
  are written by code point: \<open>CHR 0xF1\<close> is n-tilde, \<open>CHR 0xE9\<close> e-acute,
  \<open>CHR 0xE1\<close> a-acute, \<open>CHR 0xF3\<close> o-acute, \<open>CHR 0xED\<close> i-acute and
  \<open>CHR 0xFA\<close> u-acute.
\<close>

text \<open>\<open>str.startswith\<close>: \<open>empieza_con pre s\<close> is \<open>s.startswith(pre)\<close>.\<close>

fun empieza_con :: "string \<Rightarrow> string \<Rightarrow> bool" where
  "empieza_con [] s = True"
| "empieza_con (p # ps) [] = False"
| "empieza_con (p # ps) (c # cs) = (p = c \<and> empieza_con ps cs)"

text \<open>The operator \<open>in\<close> on strings: \<open>subcadena t s\<close> is \<open>t in s\<close>.\<close>

fun subcadena :: "string \<Rightarrow> string \<Rightarrow> bool" where
  "subcadena t [] = (t = [])"
| "subcadena t (c # cs) = (empieza_con t (c # cs) \<or> subcadena t cs)"

text \<open>
  \<open>str.lower\<close> on the code points below 256: the letters A to Z and the accented
  capitals \<open>0xC0\<close> to \<open>0xDE\<close> (the multiplication sign \<open>0xD7\<close> apart) move up by 32;
  every other character is left as it is.
\<close>

definition minuscula :: "char \<Rightarrow> char" where
  "minuscula c =
     (let n = (of_char c :: nat) in
      if (65 \<le> n \<and> n \<le> 90) \<or> (192 \<le> n \<and> n \<le> 222 \<and> n \<noteq> 215)
      then char_of (n + 32) else c)"

definition lower :: "string \<Rightarrow> string" where
  "lower s = map minuscula s"

text \<open>\<open>str\<close> of an integer, as the f-strings of the source print it.\<close>

fun digitos :: "nat \<Rightarrow> string" where
  "digitos n =
     (if n < 10 then [char_of (48 + n)]
      else digitos (n div 10) @ [char_of (48 + n mod 10)])"

declare digitos.simps [simp del]

definition str_int :: "int \<Rightarrow> string" where
  "str_int i = (if i < 0 then CHR ''-'' # digitos (nat (- i)) else digitos (nat i))"

section \<open>Term Mapper\<close>

text \<open>
  The directive of a dictionary entry. The source tags each entry with \<open>'tipo'\<close> and
  gives it a \<open>'valor'\<close>; an entry of type \<open>'columna'\<close> may carry a \<open>'filtro'\<close> key,
  whose presence is the boolean of \<open>Columna\<close>.
\<close>

datatype mapeo =
    RangoEdad int int
  | Sexo string
  | Columna string bool
  | MultipleCarencias int
  | Programa string
  | ConceptoElegibilidad string

text \<open>
  \<open>_mapear_grupos_poblacionales\<close>: the dictionary, as an association list in the
  order of the literal (Python dictionaries iterate in insertion order). No phrase
  occurs twice.
\<close>

definition mapear_grupos_poblacionales :: "(string \<times> mapeo) list" where
  "mapear_grupos_poblacionales = [
    (''ni'' @ [CHR 0xF1] @ ''os'', RangoEdad 0 12),
    (''ni'' @ [CHR 0xF1] @ ''as'', RangoEdad 0 12),
    (''infantes'', RangoEdad 0 3),
    (''beb'' @ [CHR 0xE9] @ ''s'', RangoEdad 0 3),
    (''adolescentes'', RangoEdad 13 18),
    (''j'' @ [CHR 0xF3] @ ''venes'', RangoEdad 19 30),
    (''adultos'', RangoEdad 31 50),
    (''adultos mayores'', RangoEdad 65 100),
    (''mayores de 65'', RangoEdad 65 100),
    (''tercera edad'', RangoEdad 65 100),
    (''adulto mayor'', RangoEdad 65 100),
    (''mujeres'', Sexo ''Mujer''),
    (''hombres'', Sexo ''Hombre''),
    (''mujer'', Sexo ''Mujer''),
    (''hombre'', Sexo ''Hombre''),
    (''carencia de salud'', Columna ''presencia_carencia_salud_persona'' True),
    (''carencia salud'', Columna ''presencia_carencia_salud_persona'' True),
    (''salud'', Columna ''presencia_carencia_salud_persona'' True),
    (''sin salud'', Columna ''presencia_carencia_salud_persona'' True),
    (''acceso a salud'', Columna ''presencia_carencia_salud_persona'' True),
    (''carencia de acceso a salud'', Columna ''presencia_carencia_salud_persona'' True),
    (''carencia acceso a salud'', Columna ''presencia_carencia_salud_persona'' True),
    (''sin cobertura de salud'', Columna ''presencia_carencia_salud_persona'' True),
    (''sin servicios m'' @ [CHR 0xE9] @ ''dicos'', Columna ''presencia_carencia_salud_persona'' True),
    (''carencia de educaci'' @ [CHR 0xF3] @ ''n'', Columna ''presencia_rezago_educativo_persona'' True),
    (''carencia educaci'' @ [CHR 0xF3] @ ''n'', Columna ''presencia_rezago_educativo_persona'' True),
    (''rezago educativo'', Columna ''presencia_rezago_educativo_persona'' True),
    (''educaci'' @ [CHR 0xF3] @ ''n'', Columna ''presencia_rezago_educativo_persona'' True),
    (''sin educaci'' @ [CHR 0xF3] @ ''n'', Columna ''presencia_rezago_educativo_persona'' True),
    (''sin asistir a la escuela'', Columna ''presencia_rezago_educativo_persona'' True),
    (''no asiste a la escuela'', Columna ''presencia_rezago_educativo_persona'' True),
    (''inasistencia escolar'', Columna ''presencia_rezago_educativo_persona'' True),
    (''carencia de seguridad social'', Columna ''presencia_carencia_seguridad_social_persona'' True),
    (''carencia seguridad social'', Columna ''presencia_carencia_seguridad_social_persona'' True),
    (''seguridad social'', Columna ''presencia_carencia_seguridad_social_persona'' True),
    (''sin seguridad social'', Columna ''presencia_carencia_seguridad_social_persona'' True),
    (''carencia social'', Columna ''presencia_carencia_seguridad_social_persona'' True),
    (''sin afiliaci'' @ [CHR 0xF3] @ ''n'', Columna ''presencia_carencia_seguridad_social_persona'' True),
    (''sin acceso a seguridad social'', Columna ''presencia_carencia_seguridad_social_persona'' True),
    (''no afiliadas'', Columna ''presencia_carencia_seguridad_social_persona'' True),
    (''carencia m'' @ [CHR 0xE1] @ ''xima'', MultipleCarencias 3),
    (''m'' @ [CHR 0xFA] @ ''ltiples carencias'', MultipleCarencias 3),
    (''carencia extrema'', MultipleCarencias 3),
    (''vulnerabilidad extrema'', MultipleCarencias 3),
    (''mayor carencia'', MultipleCarencias 3),
    (''pobreza extrema'', MultipleCarencias 3),
    (''m'' @ [CHR 0xE1] @ ''s vulnerables'', MultipleCarencias 3),
    (''edad'', Columna ''edad_persona'' False),
    (''a'' @ [CHR 0xF1] @ ''os'', Columna ''edad_persona'' False),
    (''parentesco'', Columna ''parentesco_persona'' False),
    (''tipo de persona'', Columna ''tipo_persona'' False),
    (''apoyos sociales'', Columna ''recibe_apoyos_sociales'' False),
    (''recibe apoyos'', Columna ''recibe_apoyos_sociales'' False),
    (''beneficiario'', Columna ''recibe_apoyos_sociales'' False),
    (''pensi'' @ [CHR 0xF3] @ ''n adultos mayores'', Programa ''pension_adultos_mayores''),
    (''pensi'' @ [CHR 0xF3] @ ''n mujeres'', Programa ''pension_mujeres_bienestar''),
    (''mujeres bienestar'', Programa ''pension_mujeres_bienestar''),
    (''becas'', Programa ''beca_rita_cetina''),
    (''beca rita cetina'', Programa ''beca_rita_cetina''),
    (''benito ju'' @ [CHR 0xE1] @ ''rez'', Programa ''beca_benito_juarez''),
    (''j'' @ [CHR 0xF3] @ ''venes escribiendo futuro'', Programa ''jovenes_escribiendo_el_futuro''),
    (''j'' @ [CHR 0xF3] @ ''venes construyendo futuro'', Programa ''jovenes_construyendo_futuro''),
    (''desde la cuna'', Programa ''desde_la_cuna''),
    (''mi beca para empezar'', Programa ''mi_beca_para_empezar''),
    (''imss bienestar'', Programa ''imss_bienestar''),
    (''inea'', Programa ''inea''),
    (''leche bienestar'', Programa ''leche_bienestar''),
    (''seguro desempleo'', Programa ''seguro_desempleo_cdmx''),
    (''ingreso ciudadano'', Programa ''ingreso_ciudadano_universal''),
    (''colonia'', Columna ''colonia'' False),
    (''colonias'', Columna ''colonia'' False),
    (''ageb'', Columna ''ageb'' False),
    (''agebs'', Columna ''ageb'' False),
    (''manzana'', Columna ''manzana'' False),
    (''manzanas'', Columna ''manzana'' False),
    (''ubicaci'' @ [CHR 0xF3] @ ''n'', Columna ''ubicacion'' False),
    (''zona'', Columna ''ubicacion'' False),
    (''localidad'', Columna ''ubicacion'' False),
    (''elegibles'', ConceptoElegibilidad ''elegibilidad''),
    (''elegible'', ConceptoElegibilidad ''elegibilidad''),
    (''pueden recibir'', ConceptoElegibilidad ''elegibilidad''),
    (''califican para'', ConceptoElegibilidad ''elegibilidad''),
    (''personas que pueden'', ConceptoElegibilidad ''elegibilidad'')
  ]"

section \<open>Criteria sets\<close>

text \<open>
  A criteria set is a Python dictionary. Its recognised keys are the fields of the
  record: an absent key is \<open>None\<close>, and for the three deprivation keys, which the source
  only ever tests for truth, \<open>False\<close> stands for an absent or a false entry. The empty
  dictionary is \<open>criterios_vacios\<close>.
\<close>

record criterios =
  rango_edad :: "(int \<times> int) option"
  sexo :: "string option"
  ubicacion :: "string option"
  carencia_salud :: bool
  carencia_educacion :: bool
  carencia_seguridad_social :: bool
  programa_social :: "string option"
  segmentacion_geografica :: "string option"
  ordenamiento :: "string option"

definition criterios_vacios :: criterios where
  "criterios_vacios = \<lparr> rango_edad = None, sexo = None, ubicacion = None,
     carencia_salud = False, carencia_educacion = False,
     carencia_seguridad_social = False, programa_social = None,
     segmentacion_geografica = None, ordenamiento = None \<rparr>"

section \<open>Query Translator\<close>

text \<open>
  The three accumulators of \<open>traducir_consulta_natural\<close>. \<open>variables_detectadas\<close> is
  the list the loop appends to; the source returns \<open>list(set(...))\<close> of it, a list
  without repetitions in an order the language leaves open, so the result carries the
  set of its elements.
\<close>

record traduccion =
  criterios_demograficos :: criterios
  variables_detectadas :: "string list"
  terminos_mapeados :: "(string \<times> mapeo) list"

text \<open>
  \<open>sorted(mapeo_completo.keys(), key=len, reverse=True)\<close>: a stable sort by
  descending length, phrases of equal length staying in dictionary order. The loop
  subscripts the dictionary with each sorted key, which is to visit the entries in that
  order.
\<close>

definition terminos_ordenados :: "(string \<times> mapeo) list" where
  "terminos_ordenados =
     sort_key (\<lambda>e. - int (length (fst e))) mapear_grupos_poblacionales"

text \<open>The body of the loop for one phrase found in the text.\<close>

fun aplicar_mapeo :: "string \<Rightarrow> mapeo \<Rightarrow> traduccion \<Rightarrow> traduccion" where
  "aplicar_mapeo termino (RangoEdad edad_minima edad_maxima) t =
     (if rango_edad (criterios_demograficos t) = None
      then t\<lparr> criterios_demograficos :=
                 (criterios_demograficos t)\<lparr> rango_edad := Some (edad_minima, edad_maxima) \<rparr>,
               variables_detectadas := variables_detectadas t @
                 [''rango_edad_'' @ str_int edad_minima @ ''_'' @ str_int edad_maxima] \<rparr>
      else t)"
| "aplicar_mapeo termino (Sexo v) t =
     t\<lparr> criterios_demograficos := (criterios_demograficos t)\<lparr> sexo := Some v \<rparr>,
        variables_detectadas := variables_detectadas t @ [''sexo_persona''] \<rparr>"
| "aplicar_mapeo termino (Columna v filtro) t =
     (let t' = t\<lparr> variables_detectadas := variables_detectadas t @ [v] \<rparr> in
      if filtro then
        if subcadena ''salud'' termino
        then t'\<lparr> criterios_demograficos :=
                   (criterios_demograficos t')\<lparr> carencia_salud := True \<rparr> \<rparr>
        else if subcadena (''educaci'' @ [CHR 0xF3] @ ''n'') termino
                \<or> subcadena ''educacion'' termino \<or> subcadena ''rezago'' termino
        then t'\<lparr> criterios_demograficos :=
                   (criterios_demograficos t')\<lparr> carencia_educacion := True \<rparr> \<rparr>
        else if subcadena ''seguridad_social'' termino \<or> subcadena ''social'' termino
        then t'\<lparr> criterios_demograficos :=
                   (criterios_demograficos t')\<lparr> carencia_seguridad_social := True \<rparr> \<rparr>
        else t'
      else t')"
| "aplicar_mapeo termino (Programa v) t =
     t\<lparr> criterios_demograficos := (criterios_demograficos t)\<lparr> programa_social := Some v \<rparr>,
        variables_detectadas := variables_detectadas t @ [''es_elegible_'' @ v] \<rparr>"
| "aplicar_mapeo termino (MultipleCarencias n) t = t"
| "aplicar_mapeo termino (ConceptoElegibilidad v) t = t"

definition paso_termino :: "string \<Rightarrow> string \<times> mapeo \<Rightarrow> traduccion \<Rightarrow> traduccion" where
  "paso_termino texto_consulta e t =
     (if subcadena (fst e) texto_consulta
      then aplicar_mapeo (fst e) (snd e)
             (t\<lparr> terminos_mapeados := terminos_mapeados t @ [e] \<rparr>)
      else t)"

definition buscar_terminos :: "string \<Rightarrow> traduccion" where
  "buscar_terminos texto_consulta =
     fold (paso_termino texto_consulta) terminos_ordenados
       \<lparr> criterios_demograficos = criterios_vacios, variables_detectadas = [],
         terminos_mapeados = [] \<rparr>"

text \<open>Automatic detection of the geographic grouping, after the loop.\<close>

definition detectar_segmentacion :: "string \<Rightarrow> criterios \<Rightarrow> criterios" where
  "detectar_segmentacion texto_consulta c =
     (if list_ex (\<lambda>geo. subcadena geo texto_consulta)
           [''por ageb'', ''por colonia'', ''por ubicaci'' @ [CHR 0xF3] @ ''n'', ''por zona'']
      then
        if subcadena ''ageb'' texto_consulta
        then c\<lparr> segmentacion_geografica := Some ''ageb'' \<rparr>
        else if subcadena ''colonia'' texto_consulta
        then c\<lparr> segmentacion_geografica := Some ''colonia'' \<rparr>
        else if subcadena (''ubicaci'' @ [CHR 0xF3] @ ''n'') texto_consulta
                \<or> subcadena ''zona'' texto_consulta
        then c\<lparr> segmentacion_geografica := Some ''ubicacion'' \<rparr>
        else c
      else c)"

text \<open>Detection of the sort direction.\<close>

definition detectar_ordenamiento :: "string \<Rightarrow> criterios \<Rightarrow> criterios" where
  "detectar_ordenamiento texto_consulta c =
     (if list_ex (\<lambda>orden. subcadena orden texto_consulta)
           [''mayor'', ''m'' @ [CHR 0xE1] @ ''s'', ''top'', ''principal'']
      then c\<lparr> ordenamiento := Some ''descendente'' \<rparr>
      else if list_ex (\<lambda>orden. subcadena orden texto_consulta) [''menor'', ''menos'']
      then c\<lparr> ordenamiento := Some ''ascendente'' \<rparr>
      else c)"

text \<open>
  The value \<open>traducir_consulta_natural\<close> returns. \<open>estado\<close> is \<open>True\<close> for the status
  of a translation with criteria and \<open>False\<close> for \<open>'sin_criterios_detectados'\<close>. The
  \<open>except\<close> branch of the source is not a case of the model: on a string the body
  performs dictionary and substring operations only, none of which raises.
\<close>

record resultado_traduccion =
  consulta_original :: string
  criterios_res :: criterios
  variables_res :: "string set"
  terminos_res :: "(string \<times> mapeo) list"
  estado :: bool

definition traducir_consulta_natural :: "string \<Rightarrow> resultado_traduccion" where
  "traducir_consulta_natural consulta =
     (let texto_consulta = lower consulta;
          t = buscar_terminos texto_consulta;
          c = detectar_ordenamiento texto_consulta
                (detectar_segmentacion texto_consulta (criterios_demograficos t))
      in \<lparr> consulta_original = consulta, criterios_res = c,
           variables_res = set (variables_detectadas t),
           terminos_res = terminos_mapeados t,
           estado = (c \<noteq> criterios_vacios) \<rparr>)"

section \<open>Results, numbers and tables\<close>

text \<open>
  An analysis result is a nested Python dictionary of primitives. \<open>JDict\<close> keeps the
  entries in insertion order; \<open>JNum\<close> is a \<open>float\<close> and \<open>JNaN\<close> the float that is not a
  number; \<open>JInt\<close> is an \<open>int\<close>; a tuple is a \<open>JList\<close>.
\<close>

datatype json =
    JNull
  | JInt int
  | JNum rat
  | JNaN
  | JStr string
  | JList "json list"
  | JDict "(string \<times> json) list"

text \<open>\<open>d[k]\<close> for a key that may be absent, and the test \<open>k in d\<close>.\<close>

fun obtener :: "json \<Rightarrow> string \<Rightarrow> json option" where
  "obtener (JDict kvs) k = map_of kvs k"
| "obtener JNull k = None"
| "obtener (JInt i) k = None"
| "obtener (JNum x) k = None"
| "obtener JNaN k = None"
| "obtener (JStr s) k = None"
| "obtener (JList xs) k = None"

definition tiene_clave :: "string \<Rightarrow> json \<Rightarrow> bool" where
  "tiene_clave k j = (obtener j k \<noteq> None)"

text \<open>Nested subscripts \<open>d[k1][k2]...\<close>.\<close>

fun camino :: "json \<Rightarrow> string list \<Rightarrow> json option" where
  "camino j [] = Some j"
| "camino j (k # ks) = (case obtener j k of None \<Rightarrow> None | Some j' \<Rightarrow> camino j' ks)"

text \<open>
  Floating-point arithmetic is modelled by exact rational arithmetic. \<open>redondear x n\<close>
  is \<open>round(x, n)\<close>: the nearest multiple of \<open>10 ^ (- n)\<close>, a tie going to the even
  neighbour.
\<close>

definition redondear_par :: "rat \<Rightarrow> int" where
  "redondear_par x =
     (let f = \<lfloor>x\<rfloor>; r = x - of_int f in
      if r < 1 / 2 then f
      else if 1 / 2 < r then f + 1
      else if even f then f else f + 1)"

definition redondear :: "rat \<Rightarrow> nat \<Rightarrow> rat" where
  "redondear x n = of_int (redondear_par (x * 10 ^ n)) / 10 ^ n"

text \<open>\<open>a / b * 100\<close> on two counts.\<close>

definition porcentaje :: "nat \<Rightarrow> nat \<Rightarrow> rat" where
  "porcentaje a b = of_nat a / of_nat b * 100"

text \<open>The mean of a column of integers (of a column that is not empty).\<close>

definition media :: "int list \<Rightarrow> rat" where
  "media xs = of_int (sum_list xs) / of_nat (length xs)"

fun minimo :: "int list \<Rightarrow> int" where
  "minimo [] = 0"
| "minimo (x # xs) = fold min xs x"

fun maximo :: "int list \<Rightarrow> int" where
  "maximo [] = 0"
| "maximo (x # xs) = fold max xs x"

text \<open>
  A row of the flat table. The columns that the analysis subscripts by a fixed name
  are the fields of the record, named as the columns are (the column \<open>ubicacion\<close> is
  the field \<open>col_ubicacion\<close>, the name \<open>ubicacion\<close> being the key of the criteria set).
  The three geographic columns may hold the missing value \<open>NaN\<close>, which is \<open>None\<close>.
  \<open>otras\<close> holds the cells of the remaining columns by column name, among them the
  eligibility columns \<open>es_elegible_<program>\<close>. Deprivation and eligibility cells
  are the strings \<open>'yes'\<close> and \<open>'no'\<close>.
\<close>

record persona =
  id_hogar :: int
  edad_persona :: int
  sexo_persona :: string
  colonia :: "string option"
  ageb :: "string option"
  col_ubicacion :: "string option"
  presencia_carencia_salud_persona :: string
  presencia_rezago_educativo_persona :: string
  presencia_carencia_seguridad_social_persona :: string
  otras :: "(string \<times> string) list"

text \<open>
  A \<open>DataFrame\<close>: the names of its columns and its rows. Filtering keeps the columns
  and selects rows.
\<close>

record tabla =
  columnas :: "string list"
  filas :: "persona list"

text \<open>\<open>df[col] == 'yes'\<close> at one row, for a column held in \<open>otras\<close>.\<close>

definition es_yes :: "string \<Rightarrow> persona \<Rightarrow> bool" where
  "es_yes col p = (map_of (otras p) col = Some ''yes'')"

text \<open>
  \<open>Series.str.contains(pat, case=False, na=False)\<close> compiles \<open>pat\<close> as a regular
  expression. The regular-expression library is a parameter of the model: a
  \<open>buscador\<close> gives, for a pattern, either the message of the exception raised for a
  malformed pattern (\<open>Inl\<close>) or the case-insensitive search predicate on texts (\<open>Inr\<close>).
  A function that calls it returns \<open>Inl\<close> when the exception leaves it.
\<close>

type_synonym buscador = "string \<Rightarrow> string + (string \<Rightarrow> bool)"

text \<open>
  The search for a pattern without metacharacters: case-insensitive containment.
\<close>

definition buscar_literal :: buscador where
  "buscar_literal pat = Inr (\<lambda>s. subcadena (lower pat) (lower s))"

text \<open>A missing cell does not match (\<open>na=False\<close>).\<close>

fun contiene_na :: "(string \<Rightarrow> bool) \<Rightarrow> string option \<Rightarrow> bool" where
  "contiene_na f None = False"
| "contiene_na f (Some s) = f s"

text \<open>The location mask: the pattern is found in any of the three columns.\<close>

definition mascara_ubicacion :: "(string \<Rightarrow> bool) \<Rightarrow> persona \<Rightarrow> bool" where
  "mascara_ubicacion f p =
     (contiene_na f (colonia p) \<or> contiene_na f (ageb p) \<or> contiene_na f (col_ubicacion p))"

text \<open>\<open>sexo_map.get(sexo, sexo)\<close>.\<close>

definition sexo_map :: "string \<Rightarrow> string" where
  "sexo_map s =
     (if s = ''Mujer'' then ''Mujer'' else if s = ''Hombre'' then ''Hombre''
      else if s = ''M'' then ''Mujer'' else if s = ''H'' then ''Hombre'' else s)"

text \<open>
  The distinct values of a column in order of first appearance, and
  \<open>Series.value_counts()\<close>: each distinct value with its number of occurrences, by
  descending count (values of equal count in order of first appearance).
\<close>

fun unicos :: "'a list \<Rightarrow> 'a list" where
  "unicos [] = []"
| "unicos (x # xs) = x # filter (\<lambda>y. y \<noteq> x) (unicos xs)"

definition value_counts :: "'a list \<Rightarrow> ('a \<times> nat) list" where
  "value_counts xs =
     sort_key (\<lambda>e. - int (snd e)) (map (\<lambda>k. (k, count_list xs k)) (unicos xs))"

text \<open>The cells of a column that are not missing (\<open>value_counts\<close> and \<open>groupby\<close> drop \<open>NaN\<close>).\<close>

definition presentes :: "'a option list \<Rightarrow> 'a list" where
  "presentes xs = concat (map (\<lambda>x. case x of None \<Rightarrow> [] | Some v \<Rightarrow> [v]) xs)"

section \<open>Population Filter\<close>

text \<open>
  \<open>DelimitadorPoblacional.aplicar_filtros\<close>. The source collects one boolean mask per
  criterion in \<open>condiciones\<close> and selects the rows at which all of them hold. A key
  counts when it is present and its value is true in Python's sense: a nonempty
  string, a pair of bounds, \<open>True\<close>. The program criterion adds a mask only when the
  eligibility column exists.
\<close>

definition condiciones :: "tabla \<Rightarrow> criterios \<Rightarrow> (string \<Rightarrow> bool) option \<Rightarrow> (persona \<Rightarrow> bool) list" where
  "condiciones df c busq =
     (case rango_edad c of None \<Rightarrow> []
      | Some (edad_min, edad_max) \<Rightarrow>
          [\<lambda>p. edad_min \<le> edad_persona p \<and> edad_persona p \<le> edad_max])
     @ (case sexo c of None \<Rightarrow> []
        | Some s \<Rightarrow> if s = [] then [] else [\<lambda>p. sexo_persona p = sexo_map s])
     @ (case busq of None \<Rightarrow> [] | Some f \<Rightarrow> [mascara_ubicacion f])
     @ (if carencia_salud c then [\<lambda>p. presencia_carencia_salud_persona p = ''yes''] else [])
     @ (if carencia_educacion c then [\<lambda>p. presencia_rezago_educativo_persona p = ''yes''] else [])
     @ (if carencia_seguridad_social c
        then [\<lambda>p. presencia_carencia_seguridad_social_persona p = ''yes''] else [])
     @ (case programa_social c of None \<Rightarrow> []
        | Some prog \<Rightarrow>
            if prog = [] then []
            else if ''es_elegible_'' @ prog \<in> set (columnas df)
            then [es_yes (''es_elegible_'' @ prog)] else [])"

definition seleccionar :: "tabla \<Rightarrow> (persona \<Rightarrow> bool) list \<Rightarrow> tabla" where
  "seleccionar df conds =
     (case conds of
        [] \<Rightarrow> df
      | cond # resto \<Rightarrow>
          df\<lparr> filas := filter (\<lambda>p. list_all (\<lambda>cond. cond p) conds) (filas df) \<rparr>)"

definition aplicar_filtros :: "buscador \<Rightarrow> tabla \<Rightarrow> criterios \<Rightarrow> string + tabla" where
  "aplicar_filtros re df c =
     (case ubicacion c of
        None \<Rightarrow> Inr (seleccionar df (condiciones df c None))
      | Some u \<Rightarrow>
          if u = [] then Inr (seleccionar df (condiciones df c None))
          else (case re u of
                  Inl msg \<Rightarrow> Inl msg
                | Inr f \<Rightarrow> Inr (seleccionar df (condiciones df c (Some f)))))"

section \<open>Demographic Profiler\<close>

text \<open>
  \<open>AnalizadorDemografico.generar_perfil_segmento\<close>. The mean of the sizes of the
  household groups is the mean of the counts of the distinct household ids. The test
  \<open>pd.notna\<close> on a mean holds whenever the segment has a row, ages and household ids
  being integers, so its zero default is not a case of the model.
\<close>

definition distribucion_sexo :: "persona list \<Rightarrow> json" where
  "distribucion_sexo ps =
     JDict (map (\<lambda>e. (fst e, JInt (int (snd e)))) (value_counts (map sexo_persona ps)))"

definition generar_perfil_segmento :: "tabla \<Rightarrow> json" where
  "generar_perfil_segmento df_segmento =
     (if length (filas df_segmento) = 0 then JDict []
      else
        let ps = filas df_segmento;
            edad_prom = media (map edad_persona ps);
            personas_hogar_prom =
              media (map (\<lambda>e. int (snd e)) (value_counts (map id_hogar ps)))
        in JDict [
             (''total_personas'', JInt (int (length ps))),
             (''edad_promedio'', JNum (redondear edad_prom 1)),
             (''distribucion_sexo'', distribucion_sexo ps),
             (''hogares_afectados'', JInt (int (length (unicos (map id_hogar ps))))),
             (''personas_por_hogar'', JNum (redondear personas_hogar_prom 2))])"

section \<open>Eligibility and Gap Analyzer\<close>

text \<open>
  \<open>str.replace(old, new)\<close> for a nonempty \<open>old\<close>: the occurrences of \<open>old\<close> are
  replaced from left to right, the scan going on after each replaced occurrence.
\<close>

fun replace :: "string \<Rightarrow> string \<Rightarrow> string \<Rightarrow> string" where
  "replace old new [] = []"
| "replace old new (c # cs) =
     (if empieza_con old (c # cs)
      then new @ replace old new (drop (length old - 1) cs)
      else c # replace old new cs)"

text \<open>
  The constructor of \<open>AnalizadorProgramasSociales\<close>: the eligibility columns found in
  the table, the program names derived from them, and the display names.
\<close>

definition programas_disponibles :: "tabla \<Rightarrow> string list" where
  "programas_disponibles df = filter (empieza_con ''es_elegible_'') (columnas df)"

definition programas_nombres :: "tabla \<Rightarrow> string list" where
  "programas_nombres df = map (replace ''es_elegible_'' []) (programas_disponibles df)"

definition mapeo_programas :: "(string \<times> string) list" where
  "mapeo_programas = [
    (''imss_bienestar'', ''IMSS Bienestar''),
    (''pension_adultos_mayores'', ''Pensi'' @ [CHR 0xF3] @ ''n Adultos Mayores''),
    (''pension_mujeres_bienestar'', ''Pensi'' @ [CHR 0xF3] @ ''n Mujeres Bienestar''),
    (''beca_benito_juarez'', ''Beca Benito Ju'' @ [CHR 0xE1] @ ''rez''),
    (''beca_rita_cetina'', ''Beca Rita Cetina''),
    (''jovenes_escribiendo_el_futuro'', ''J'' @ [CHR 0xF3] @ ''venes Escribiendo el Futuro''),
    (''jovenes_construyendo_futuro'', ''J'' @ [CHR 0xF3] @ ''venes Construyendo el Futuro''),
    (''desde_la_cuna'', ''Desde la Cuna''),
    (''mi_beca_para_empezar'', ''Mi Beca para Empezar''),
    (''seguro_desempleo_cdmx'', ''Seguro de Desempleo CDMX''),
    (''ingreso_ciudadano_universal'', ''Ingreso Ciudadano Universal''),
    (''inea'', ''INEA''),
    (''leche_bienestar'', ''Leche Bienestar'')
  ]"

text \<open>\<open>df[mask]\<close>: the rows at which the mask holds.\<close>

definition filtrar :: "(persona \<Rightarrow> bool) \<Rightarrow> tabla \<Rightarrow> tabla" where
  "filtrar m df = df\<lparr> filas := filter m (filas df) \<rparr>"

text \<open>The age filter and the location filter, which several analyses apply in turn.\<close>

definition filtro_edad :: "(int \<times> int) option \<Rightarrow> tabla \<Rightarrow> tabla" where
  "filtro_edad rango df =
     (case rango of
        None \<Rightarrow> df
      | Some (edad_min, edad_max) \<Rightarrow>
          filtrar (\<lambda>p. edad_min \<le> edad_persona p \<and> edad_persona p \<le> edad_max) df)"

definition filtro_ubicacion :: "buscador \<Rightarrow> string option \<Rightarrow> tabla \<Rightarrow> string + tabla" where
  "filtro_ubicacion re ubic df =
     (case ubic of
        None \<Rightarrow> Inr df
      | Some u \<Rightarrow>
          if u = [] then Inr df
          else (case re u of
                  Inl msg \<Rightarrow> Inl msg
                | Inr f \<Rightarrow> Inr (filtrar (mascara_ubicacion f) df)))"

text \<open>The \<open>carencia_map\<close> of \<open>_aplicar_filtros_basicos\<close>.\<close>

definition carencia_map :: "string \<Rightarrow> (persona \<Rightarrow> string) option" where
  "carencia_map carencia =
     (if carencia = ''salud'' then Some presencia_carencia_salud_persona
      else if carencia = ''educacion'' then Some presencia_rezago_educativo_persona
      else if carencia = ''seguridad_social''
      then Some presencia_carencia_seguridad_social_persona
      else None)"

text \<open>
  \<open>_aplicar_filtros_basicos(rango_edad, ubicacion, sexo, carencia)\<close>: the filters by
  age, sex, location and deprivation, applied one after the other.
\<close>

definition aplicar_filtros_basicos ::
  "buscador \<Rightarrow> tabla \<Rightarrow> (int \<times> int) option \<Rightarrow> string option \<Rightarrow> string option
     \<Rightarrow> string option \<Rightarrow> string + tabla" where
  "aplicar_filtros_basicos re df rango ubic sex carencia =
     (let df1 = filtro_edad rango df;
          df2 = (case sex of
                   None \<Rightarrow> df1
                 | Some s \<Rightarrow>
                     if s = [] then df1
                     else filtrar (\<lambda>p. sexo_persona p = sexo_map s) df1)
      in case filtro_ubicacion re ubic df2 of
           Inl msg \<Rightarrow> Inl msg
         | Inr df3 \<Rightarrow>
             Inr (case carencia of
                    None \<Rightarrow> df3
                  | Some car \<Rightarrow>
                      (case carencia_map car of
                         None \<Rightarrow> df3
                       | Some campo \<Rightarrow> filtrar (\<lambda>p. campo p = ''yes'') df3)))"

text \<open>\<open>list.index\<close>: the position of the first occurrence, \<open>None\<close> for \<open>ValueError\<close>.\<close>

fun indice :: "'a list \<Rightarrow> 'a \<Rightarrow> nat option" where
  "indice [] v = None"
| "indice (x # xs) v =
     (if x = v then Some 0 else (case indice xs v of None \<Rightarrow> None | Some i \<Rightarrow> Some (Suc i)))"

text \<open>
  \<open>_obtener_ranking_colonia\<close>: the rank of the neighbourhood named \<open>ubicacion\<close> among
  the neighbourhoods by population. The \<open>except\<close> clause turns the \<open>ValueError\<close> of
  \<open>index\<close> (and any other exception) into the empty dictionary.
\<close>

definition obtener_ranking_colonia :: "tabla \<Rightarrow> string \<Rightarrow> json" where
  "obtener_ranking_colonia df ubic =
     (let colonias_ranking = value_counts (presentes (map colonia (filas df))) in
      case indice (map fst colonias_ranking) ubic of
        None \<Rightarrow> JDict []
      | Some i \<Rightarrow>
          (case map_of colonias_ranking ubic of
             None \<Rightarrow> JDict []
           | Some poblacion_colonia \<Rightarrow>
               JDict [(''posicion'', JInt (int i + 1)),
                      (''de_total'', JInt (int (length colonias_ranking))),
                      (''poblacion'', JInt (int poblacion_colonia))]))"

text \<open>\<open>_clasificar_vulnerabilidad\<close> on the three deprivation counts of an area.\<close>

definition clasificar_vulnerabilidad :: "nat list \<Rightarrow> nat \<Rightarrow> string" where
  "clasificar_vulnerabilidad conteos n_total =
     (if n_total = 0 then ''Sin datos''
      else
        let promedio_carencias =
              (of_nat (sum_list conteos) / of_nat (length conteos) / of_nat n_total * 100 :: rat)
        in if promedio_carencias > 60 then ''Muy Alta''
           else if promedio_carencias > 45 then ''Alta''
           else if promedio_carencias > 30 then ''Moderada''
           else ''Baja'')"

definition contar_yes :: "(persona \<Rightarrow> string) \<Rightarrow> persona list \<Rightarrow> nat" where
  "contar_yes campo ps = length (filter (\<lambda>p. campo p = ''yes'') ps)"

text \<open>\<open>_caracterizar_colonia\<close> (its second argument is not used by the source).\<close>

definition caracterizar_colonia :: "persona list \<Rightarrow> json" where
  "caracterizar_colonia df_colonia =
     (if length df_colonia > 0 then
        let salud = contar_yes presencia_carencia_salud_persona df_colonia;
            educacion = contar_yes presencia_rezago_educativo_persona df_colonia;
            seguridad_social =
              contar_yes presencia_carencia_seguridad_social_persona df_colonia
        in JDict [
             (''nivel_vulnerabilidad'',
                JStr (clasificar_vulnerabilidad [salud, educacion, seguridad_social]
                        (length df_colonia))),
             (''carencias_principales'',
                JDict [(''salud'', JInt (int salud)),
                       (''educacion'', JInt (int educacion)),
                       (''seguridad_social'', JInt (int seguridad_social))])]
      else JDict [])"

text \<open>
  \<open>_obtener_contexto_colonia\<close>: the rows of the whole table that match the location,
  their statistics, the rank and the vulnerability class. The mean of no rows is \<open>NaN\<close>.
\<close>

definition obtener_contexto_colonia :: "buscador \<Rightarrow> tabla \<Rightarrow> string \<Rightarrow> string + json" where
  "obtener_contexto_colonia re df ubic =
     (case re ubic of
        Inl msg \<Rightarrow> Inl msg
      | Inr f \<Rightarrow>
          let df_colonia = filter (mascara_ubicacion f) (filas df) in
          Inr (JDict [
            (''poblacion_total'', JInt (int (length df_colonia))),
            (''hogares_totales'', JInt (int (length (unicos (map id_hogar df_colonia))))),
            (''edad_promedio'',
               (if df_colonia = [] then JNaN
                else JNum (redondear (media (map edad_persona df_colonia)) 1))),
            (''ranking_colonias'', obtener_ranking_colonia df ubic),
            (''caracteristicas'', caracterizar_colonia df_colonia)]))"

text \<open>
  \<open>_generar_comparativa\<close>. \<open>groupby('colonia')\<close> visits the neighbourhoods in
  ascending order of name and leaves out the rows without one; the entries are then
  sorted by descending eligible count, stably. An entry is the triple of its
  \<open>'colonia'\<close>, \<open>'elegibles'\<close> and \<open>'tasa'\<close>.
\<close>

definition comparativa_data :: "string \<Rightarrow> persona list \<Rightarrow> (string \<times> nat \<times> rat) list" where
  "comparativa_data columna_programa ps =
     sort_key (\<lambda>e. - int (fst (snd e)))
       (concat (map (\<lambda>col.
          let x = filter (\<lambda>p. colonia p = Some col) ps;
              elegibles = length (filter (es_yes columna_programa) x);
              n_total = length x
          in if n_total > 0
             then [(col, elegibles, redondear (porcentaje elegibles n_total) 1)]
             else [])
        (sort (unicos (presentes (map colonia ps))))))"

definition generar_comparativa :: "string \<Rightarrow> string \<Rightarrow> persona list \<Rightarrow> json" where
  "generar_comparativa programa ubic ps =
     (let datos = comparativa_data (''es_elegible_'' @ programa) ps;
          posicion_actual = indice (map (\<lambda>e. lower (fst e)) datos) (lower ubic)
      in JDict [
           (''top_colonias'',
              JList (map (\<lambda>e. JDict [(''colonia'', JStr (fst e)),
                                       (''elegibles'', JInt (int (fst (snd e)))),
                                       (''tasa'', JNum (snd (snd e)))])
                       (take 5 datos))),
           (''posicion_colonia_actual'',
              (case posicion_actual of None \<Rightarrow> JNull | Some i \<Rightarrow> JInt (int i + 1))),
           (''total_colonias_comparadas'', JInt (int (length datos)))])"

text \<open>Section 1 of the eligibility analysis: the eligible population.\<close>

definition poblacion_elegible :: "tabla \<Rightarrow> persona list \<Rightarrow> persona list \<Rightarrow> json" where
  "poblacion_elegible df df_filtrado df_elegibles =
     (let total_elegibles = length df_elegibles;
          total_poblacion = length df_filtrado
      in JDict [
           (''total_elegibles'', JInt (int total_elegibles)),
           (''tasa_elegibilidad'',
              JNum (if total_poblacion > 0
                    then redondear (porcentaje total_elegibles total_poblacion) 2 else 0)),
           (''hogares_afectados'',
              JInt (if total_elegibles > 0
                    then int (length (unicos (map id_hogar df_elegibles))) else 0)),
           (''porcentaje_del_total_estudio'',
              JNum (if length (filas df) > 0
                    then redondear (porcentaje total_elegibles (length (filas df))) 2
                    else 0))])"

text \<open>Section 2: the profile of the eligible people.\<close>

definition perfil_elegibles :: "persona list \<Rightarrow> json" where
  "perfil_elegibles df_elegibles =
     (let total_elegibles = length df_elegibles;
          edades = map edad_persona df_elegibles;
          conteo_sexo = value_counts (map sexo_persona df_elegibles)
      in JDict [
           (''edad_promedio'',
              JNum (if total_elegibles > 0 then redondear (media edades) 1 else 0)),
           (''edad_minima'', JInt (if total_elegibles > 0 then minimo edades else 0)),
           (''edad_maxima'', JInt (if total_elegibles > 0 then maximo edades else 0)),
           (''distribucion_sexo'',
              (if total_elegibles > 0
               then JDict (map (\<lambda>e. (fst e, JInt (int (snd e)))) conteo_sexo)
               else JDict [])),
           (''distribucion_sexo_porcentaje'',
              (if total_elegibles > 0
               then JDict (map (\<lambda>e. (fst e,
                                  JNum (redondear (porcentaje (snd e) total_elegibles) 1)))
                             conteo_sexo)
               else JDict []))])"

text \<open>
  Section 3: the deprivations among the eligible people, one entry for each
  deprivation column that the table has.
\<close>

definition carencias :: "(string \<times> (persona \<Rightarrow> string) \<times> string) list" where
  "carencias = [
     (''presencia_carencia_salud_persona'', presencia_carencia_salud_persona, ''Salud''),
     (''presencia_rezago_educativo_persona'', presencia_rezago_educativo_persona,
        ''Educaci'' @ [CHR 0xF3] @ ''n''),
     (''presencia_carencia_seguridad_social_persona'',
        presencia_carencia_seguridad_social_persona, ''Seguridad Social'')]"

definition carencias_detectadas :: "tabla \<Rightarrow> persona list \<Rightarrow> json" where
  "carencias_detectadas df df_elegibles =
     JDict (concat (map (\<lambda>(columna_carencia, campo, nombre_carencia).
        if columna_carencia \<in> set (columnas df) then
          let total_elegibles = length df_elegibles;
              total_con_carencia = contar_yes campo df_elegibles;
              pct = (if total_elegibles > 0
                     then porcentaje total_con_carencia total_elegibles else 0)
          in [(nombre_carencia,
               JDict [(''cantidad'', JInt (int total_con_carencia)),
                      (''porcentaje'', JNum (redondear pct 2))])]
        else []) carencias))"

text \<open>An optional string argument and an optional pair of bounds, as result values.\<close>

definition json_str :: "string option \<Rightarrow> json" where
  "json_str s = (case s of None \<Rightarrow> JNull | Some v \<Rightarrow> JStr v)"

definition json_rango :: "(int \<times> int) option \<Rightarrow> json" where
  "json_rango r = (case r of None \<Rightarrow> JNull | Some (a, b) \<Rightarrow> JList [JInt a, JInt b])"

text \<open>
  \<open>analizar_elegibilidad_programa(programa, rango_edad, ubicacion, sexo, carencia)\<close>
  (the parameters \<open>incluir_brecha\<close> and \<open>segmentacion_geografica\<close> are not read by the
  source). Sections 4 and 5 are computed only for a location that is given and not
  empty. The function has no \<open>try\<close>: an exception of the pattern compiler leaves
  it, which is the result \<open>Inl\<close>.
\<close>

definition analizar_elegibilidad_programa ::
  "buscador \<Rightarrow> tabla \<Rightarrow> string \<Rightarrow> (int \<times> int) option \<Rightarrow> string option \<Rightarrow> string option
     \<Rightarrow> string option \<Rightarrow> string + json" where
  "analizar_elegibilidad_programa re df programa rango ubic sex carencia =
     (let columna_programa = ''es_elegible_'' @ programa in
      if columna_programa \<notin> set (columnas df) then
        Inr (JDict [
          (''error'', JStr (''Programa '' @ [CHR 0x27] @ programa @ [CHR 0x27] @ '' no encontrado'')),
          (''programas_disponibles'', JList (map JStr (programas_nombres df))),
          (''columnas_reales'', JList (map JStr (programas_disponibles df)))])
      else
        case aplicar_filtros_basicos re df rango ubic sex carencia of
          Inl msg \<Rightarrow> Inl msg
        | Inr df_filtrado \<Rightarrow>
            if length (filas df_filtrado) = 0 then
              Inr (JDict [(''error'',
                     JStr ''No hay personas que cumplan los criterios especificados'')])
            else
              let df_elegibles = filter (es_yes columna_programa) (filas df_filtrado);
                  secciones_4_y_5 =
                    (case ubic of
                       None \<Rightarrow> Inr (JDict [], JDict [])
                     | Some u \<Rightarrow>
                         if u = [] then Inr (JDict [], JDict [])
                         else (case obtener_contexto_colonia re df u of
                                 Inl msg \<Rightarrow> Inl msg
                               | Inr contexto \<Rightarrow>
                                   Inr (contexto,
                                        generar_comparativa programa u (filas df_filtrado))))
              in case secciones_4_y_5 of
                   Inl msg \<Rightarrow> Inl msg
                 | Inr (contexto_colonia, comparativa) \<Rightarrow>
                     Inr (JDict [
                       (''programa'', JStr programa),
                       (''nombre_programa'',
                          JStr (case map_of mapeo_programas programa of
                                  None \<Rightarrow> programa | Some nombre \<Rightarrow> nombre)),
                       (''criterios_aplicados'',
                          JDict [(''rango_edad'', json_rango rango),
                                 (''ubicacion'', json_str ubic),
                                 (''sexo'', json_str sex),
                                 (''carencia'', json_str carencia)]),
                       (''seccion_1_poblacion_elegible'',
                          poblacion_elegible df (filas df_filtrado) df_elegibles),
                       (''seccion_2_perfil_elegibles'', perfil_elegibles df_elegibles),
                       (''seccion_3_carencias_detectadas'',
                          carencias_detectadas df_filtrado df_elegibles),
                       (''seccion_4_contexto_colonia'', contexto_colonia),
                       (''seccion_5_comparativa'', comparativa)]))"

section \<open>Multi-deprivation intensity\<close>






section \<open>Cross-Tabulation Engine: age bins\<close>

text \<open>
  \<open>pd.cut(x, bins, labels, right=False)\<close> at one value: the label of the interval
  \<open>[bins[i], bins[i+1])\<close> that holds the value, and the missing value \<open>NaN\<close> for a
  value in none of them.
\<close>

fun pd_cut :: "int list \<Rightarrow> string list \<Rightarrow> int \<Rightarrow> string option" where
  "pd_cut (a # b # bins) (l # labels) x =
     (if a \<le> x \<and> x < b then Some l else pd_cut (b # bins) labels x)"
| "pd_cut bins labels x = None"

definition bins :: "int list" where
  "bins = [0, 18, 30, 45, 60, 75, 120]"

definition labels :: "string list" where
  "labels = [''0-17 a'' @ [CHR 0xF1] @ ''os'', ''18-29 a'' @ [CHR 0xF1] @ ''os'',
             ''30-44 a'' @ [CHR 0xF1] @ ''os'', ''45-59 a'' @ [CHR 0xF1] @ ''os'',
             ''60-74 a'' @ [CHR 0xF1] @ ''os'', ''75+ a'' @ [CHR 0xF1] @ ''os'']"

text \<open>
  \<open>_agrupar_edades\<close> replaces the column \<open>edad_persona\<close> by the column of age groups:
  the result gives each row with its cell in the new column.
\<close>

definition agrupar_edades :: "tabla \<Rightarrow> (persona \<times> string option) list" where
  "agrupar_edades df = map (\<lambda>p. (p, pd_cut bins labels (edad_persona p))) (filas df)"

section \<open>Example tables\<close>

definition persona_a :: persona where
  "persona_a = \<lparr> id_hogar = 1, edad_persona = 70, sexo_persona = ''Mujer'',
     colonia = Some ''Centro'', ageb = Some ''001A'', col_ubicacion = Some ''Zona Norte'',
     presencia_carencia_salud_persona = ''yes'',
     presencia_rezago_educativo_persona = ''no'',
     presencia_carencia_seguridad_social_persona = ''yes'',
     otras = [(''es_elegible_inea'', ''no''),
              (''es_elegible_pension_adultos_mayores'', ''yes'')] \<rparr>"

definition persona_b :: persona where
  "persona_b = \<lparr> id_hogar = 1, edad_persona = 8, sexo_persona = ''Hombre'',
     colonia = Some ''Centro'', ageb = Some ''001A'', col_ubicacion = Some ''Zona Norte'',
     presencia_carencia_salud_persona = ''no'',
     presencia_rezago_educativo_persona = ''no'',
     presencia_carencia_seguridad_social_persona = ''no'',
     otras = [(''es_elegible_inea'', ''no''),
              (''es_elegible_pension_adultos_mayores'', ''no'')] \<rparr>"

definition persona_c :: persona where
  "persona_c = \<lparr> id_hogar = 2, edad_persona = 120, sexo_persona = ''Mujer'',
     colonia = Some ''Roma Sur'', ageb = Some ''002B'', col_ubicacion = Some ''Zona Sur'',
     presencia_carencia_salud_persona = ''yes'',
     presencia_rezago_educativo_persona = ''yes'',
     presencia_carencia_seguridad_social_persona = ''yes'',
     otras = [(''es_elegible_inea'', ''yes''),
              (''es_elegible_pension_adultos_mayores'', ''yes'')] \<rparr>"

definition columnas_ejemplo :: "string list" where
  "columnas_ejemplo = [''id_hogar'', ''edad_persona'', ''sexo_persona'', ''colonia'',
     ''ageb'', ''ubicacion'', ''presencia_carencia_salud_persona'',
     ''presencia_rezago_educativo_persona'',
     ''presencia_carencia_seguridad_social_persona'',
     ''es_elegible_inea'', ''es_elegible_pension_adultos_mayores'']"

definition tabla_ejemplo :: tabla where
  "tabla_ejemplo = \<lparr> columnas = columnas_ejemplo,
     filas = [persona_a, persona_b, persona_c] \<rparr>"

definition tabla_sin_filas :: tabla where
  "tabla_sin_filas = \<lparr> columnas = columnas_ejemplo, filas = [] \<rparr>"

text \<open>
  The loop only acts on the phrases that occur in the text, and a stable sort commutes
  with taking a sublist: the phrases can be selected first and sorted afterwards. This
  is the equation used to evaluate translations.
\<close>

lemma fold_paso_termino_filter:
  "fold (paso_termino texto) xs t =
   fold (paso_termino texto) (filter (\<lambda>e. subcadena (fst e) texto) xs) t"
  by (induction xs arbitrary: t) (simp_all add: paso_termino_def)

lemma buscar_terminos_code [code]:
  "buscar_terminos texto =
     fold (paso_termino texto)
       (sort_key (\<lambda>e. - int (length (fst e)))
          (filter (\<lambda>e. subcadena (fst e) texto) mapear_grupos_poblacionales))
       \<lparr> criterios_demograficos = criterios_vacios, variables_detectadas = [],
         terminos_mapeados = [] \<rparr>"
  unfolding buscar_terminos_def terminos_ordenados_def
  by (subst fold_paso_termino_filter) (simp add: filter_sort)

section \<open>Results of the Query Translator\<close>

text \<open>
  C1 (as amended). For the query "adultos mayores sin pension" (with o-acute) the
  translator finds the phrases "adultos mayores" and "adultos" and no other: the
  criteria set holds the age range [65, 100], taken from the longer phrase, and the
  sort direction "descendente" (the text contains "mayor"), and it holds no program
  reference, since the only phrase of the adult-pension program, "pension adultos
  mayores", does not occur in the query. The translator is a function of the query
  alone, so a second translation gives the same criteria set.
\<close>

theorem traducir_adultos_mayores_sin_pension:
  "criterios_res (traducir_consulta_natural (''adultos mayores sin pensi'' @ [CHR 0xF3] @ ''n''))
     = criterios_vacios \<lparr> rango_edad := Some (65, 100), ordenamiento := Some ''descendente'' \<rparr>
   \<and> terminos_res (traducir_consulta_natural (''adultos mayores sin pensi'' @ [CHR 0xF3] @ ''n''))
     = [(''adultos mayores'', RangoEdad 65 100), (''adultos'', RangoEdad 31 50)]"
  by code_simp

text \<open>
  C1 (as stated) fails: the criteria set of that query has the age range [65, 100] but
  its program reference is absent, not the adult-pension program.
\<close>

theorem traducir_sin_pension_counterexample:
  "\<not> (rango_edad (criterios_res (traducir_consulta_natural
          (''adultos mayores sin pensi'' @ [CHR 0xF3] @ ''n''))) = Some (65, 100)
      \<and> programa_social (criterios_res (traducir_consulta_natural
          (''adultos mayores sin pensi'' @ [CHR 0xF3] @ ''n''))) = Some ''pension_adultos_mayores'')"
  by code_simp

text \<open>
  C3 at the query "becas benito juarez" (with a-acute): two program phrases occur. The
  longer one, "benito juarez", is visited first and sets the program
  \<open>beca_benito_juarez\<close>; the shorter one, "becas", is visited later and replaces it by
  \<open>beca_rita_cetina\<close>. For the program category the last matching phrase wins, not the
  first.
\<close>

theorem traducir_becas_benito_juarez:
  "terminos_res (traducir_consulta_natural (''becas benito ju'' @ [CHR 0xE1] @ ''rez''))
     = [(''benito ju'' @ [CHR 0xE1] @ ''rez'', Programa ''beca_benito_juarez''),
        (''becas'', Programa ''beca_rita_cetina'')]
   \<and> programa_social (criterios_res (traducir_consulta_natural
         (''becas benito ju'' @ [CHR 0xE1] @ ''rez''))) = Some ''beca_rita_cetina''"
  by code_simp
section \<open>Properties of the Population Filter\<close>

lemma columnas_seleccionar: "columnas (seleccionar df conds) = columnas df"
  by (cases conds) (simp_all add: seleccionar_def)

lemma condiciones_columnas:
  "columnas df' = columnas df \<Longrightarrow> condiciones df' c b = condiciones df c b"
  by (simp add: condiciones_def split: option.splits)

lemma seleccionar_idem: "seleccionar (seleccionar df conds) conds = seleccionar df conds"
  by (cases conds) (simp_all add: seleccionar_def)

lemma seleccionar_condiciones_idem:
  "seleccionar (seleccionar df (condiciones df c b))
     (condiciones (seleccionar df (condiciones df c b)) c b)
   = seleccionar df (condiciones df c b)"
  by (simp add: condiciones_columnas [OF columnas_seleccionar] seleccionar_idem)

lemma condiciones_vacios: "condiciones df criterios_vacios None = []"
  by (simp add: condiciones_def criterios_vacios_def)

text \<open>
  C6. Filtering a table and then filtering the subset obtained with the same criteria
  gives that subset again, and the empty criteria set gives the table itself, not an
  error. The first part is stated for every pattern library and for the filterings
  that return: a malformed location pattern raises the same exception at the first
  call, and there is then no subset to filter again.
\<close>

theorem aplicar_filtros_idempotente:
  "(aplicar_filtros re df c = Inr s \<longrightarrow> aplicar_filtros re s c = Inr s)
   \<and> aplicar_filtros re df criterios_vacios = Inr df"
proof
  show "aplicar_filtros re df c = Inr s \<longrightarrow> aplicar_filtros re s c = Inr s"
    by (auto simp: aplicar_filtros_def seleccionar_condiciones_idem
             split: option.splits if_splits sum.splits)
  have "ubicacion criterios_vacios = None"
    by (simp add: criterios_vacios_def)
  then show "aplicar_filtros re df criterios_vacios = Inr df"
    by (simp add: aplicar_filtros_def condiciones_vacios seleccionar_def)
qed

theorem aplicar_filtros_idempotente_witness:
  "aplicar_filtros buscar_literal tabla_ejemplo
       (criterios_vacios \<lparr> rango_edad := Some (60, 130), ubicacion := Some ''zona'' \<rparr>)
     = Inr (tabla_ejemplo \<lparr> filas := [persona_a, persona_c] \<rparr>)
   \<and> aplicar_filtros buscar_literal (tabla_ejemplo \<lparr> filas := [persona_a, persona_c] \<rparr>)
         (criterios_vacios \<lparr> rango_edad := Some (60, 130), ubicacion := Some ''zona'' \<rparr>)
       = Inr (tabla_ejemplo \<lparr> filas := [persona_a, persona_c] \<rparr>)
   \<and> aplicar_filtros buscar_literal tabla_ejemplo criterios_vacios = Inr tabla_ejemplo"
proof -
  have h: "aplicar_filtros buscar_literal tabla_ejemplo
       (criterios_vacios \<lparr> rango_edad := Some (60, 130), ubicacion := Some ''zona'' \<rparr>)
     = Inr (tabla_ejemplo \<lparr> filas := [persona_a, persona_c] \<rparr>)"
    by code_simp
  from aplicar_filtros_idempotente
         [of buscar_literal tabla_ejemplo
             "criterios_vacios \<lparr> rango_edad := Some (60, 130), ubicacion := Some ''zona'' \<rparr>"
             "tabla_ejemplo \<lparr> filas := [persona_a, persona_c] \<rparr>"] h
  show ?thesis by blast
qed

text \<open>
  C9 (as amended). When the criteria set names a program whose eligibility column is
  not a column of the table, the filter drops the program criterion without a report:
  it returns what it returns for the same criteria set without the program.
\<close>

theorem aplicar_filtros_programa_ausente:
  assumes "programa_social c = Some prog"
      and "''es_elegible_'' @ prog \<notin> set (columnas df)"
  shows "aplicar_filtros re df c = aplicar_filtros re df (c\<lparr> programa_social := None \<rparr>)"
proof -
  have "condiciones df c b = condiciones df (c\<lparr> programa_social := None \<rparr>) b" for b
    using assms by (simp add: condiciones_def)
  then show ?thesis
    by (simp add: aplicar_filtros_def split: option.splits sum.splits)
qed

theorem aplicar_filtros_programa_ausente_witness:
  "programa_social (criterios_vacios \<lparr> sexo := Some ''M'', programa_social := Some ''becas'' \<rparr>)
     = Some ''becas''
   \<and> ''es_elegible_'' @ ''becas'' \<notin> set (columnas tabla_ejemplo)
   \<and> aplicar_filtros buscar_literal tabla_ejemplo
         (criterios_vacios \<lparr> sexo := Some ''M'', programa_social := Some ''becas'' \<rparr>)
       = aplicar_filtros buscar_literal tabla_ejemplo
           (criterios_vacios \<lparr> sexo := Some ''M'', programa_social := Some ''becas'' \<rparr>
              \<lparr> programa_social := None \<rparr>)"
proof -
  have h1: "programa_social
              (criterios_vacios \<lparr> sexo := Some ''M'', programa_social := Some ''becas'' \<rparr>)
            = Some ''becas''"
    by simp
  have h2: "''es_elegible_'' @ ''becas'' \<notin> set (columnas tabla_ejemplo)"
    by code_simp
  from aplicar_filtros_programa_ausente [OF h1 h2, of buscar_literal] h1 h2
  show ?thesis by blast
qed

text \<open>
  C9 (as stated) fails: the example table has no column \<open>es_elegible_becas\<close>, and the
  filter for the program \<open>becas\<close> returns the whole table, as it does for the empty
  criteria set, with no error and no list of valid programs.
\<close>

theorem aplicar_filtros_programa_ausente_counterexample:
  "''es_elegible_'' @ ''becas'' \<notin> set (columnas tabla_ejemplo)
   \<and> aplicar_filtros buscar_literal tabla_ejemplo
         (criterios_vacios \<lparr> programa_social := Some ''becas'' \<rparr>) = Inr tabla_ejemplo"
  by code_simp

section \<open>Properties of rounding and of the Demographic Profiler\<close>

lemma redondear_par_cases: "redondear_par x = \<lfloor>x\<rfloor> \<or> (redondear_par x = \<lfloor>x\<rfloor> + 1 \<and> x - of_int \<lfloor>x\<rfloor> \<ge> 1/2)"
  by (auto simp: redondear_par_def Let_def)

lemma redondear_par_ge: "of_int k \<le> x \<Longrightarrow> k \<le> redondear_par x"
proof -
  assume "of_int k \<le> x"
  then have "k \<le> \<lfloor>x\<rfloor>" by (simp add: le_floor_iff)
  then show ?thesis using redondear_par_cases [of x] by auto
qed

lemma redondear_par_le:
  assumes "x \<le> of_int k" shows "redondear_par x \<le> k"
proof -
  consider "redondear_par x = \<lfloor>x\<rfloor>" | "redondear_par x = \<lfloor>x\<rfloor> + 1" "x - of_int \<lfloor>x\<rfloor> \<ge> 1/2"
    using redondear_par_cases [of x] by blast
  then show ?thesis
  proof cases
    case 1
    then show ?thesis using assms by (simp add: floor_le_iff)
  next
    case 2
    then have "of_int \<lfloor>x\<rfloor> < x" by linarith
    then have "of_int \<lfloor>x\<rfloor> < (of_int k :: rat)" using assms by linarith
    then have "\<lfloor>x\<rfloor> < k" by simp
    then show ?thesis using 2 by simp
  qed
qed


lemma redondear_entre:
  assumes "of_int a \<le> x" "x \<le> of_int b"
  shows "of_int a \<le> redondear x n \<and> redondear x n \<le> of_int b"
proof -
  have p: "(0::rat) < 10 ^ n" by simp
  have "of_int (a * 10 ^ n) \<le> x * 10 ^ n" using assms(1) p by simp
  then have 1: "a * 10 ^ n \<le> redondear_par (x * 10 ^ n)" by (rule redondear_par_ge)
  have "x * 10 ^ n \<le> of_int (b * 10 ^ n)" using assms(2) p by simp
  then have 2: "redondear_par (x * 10 ^ n) \<le> b * 10 ^ n" by (rule redondear_par_le)
  from 1 have "(of_int (a * 10 ^ n) :: rat) \<le> of_int (redondear_par (x * 10 ^ n))"
    by (simp only: of_int_le_iff)
  then have 3: "of_int a \<le> redondear x n"
    using p by (simp add: redondear_def pos_le_divide_eq)
  from 2 have "(of_int (redondear_par (x * 10 ^ n)) :: rat) \<le> of_int (b * 10 ^ n)"
    by (simp only: of_int_le_iff)
  then have 4: "redondear x n \<le> of_int b"
    using p by (simp add: redondear_def pos_divide_le_eq)
  from 3 4 show ?thesis by simp
qed


lemma sum_list_entre:
  "\<forall>x\<in>set xs. a \<le> x \<and> x \<le> b \<Longrightarrow>
   a * int (length xs) \<le> sum_list xs \<and> sum_list xs \<le> b * int (length xs)"
  by (induction xs) (auto simp: algebra_simps)

lemma media_entre:
  assumes "xs \<noteq> []" "\<forall>x\<in>set xs. a \<le> x \<and> x \<le> b"
  shows "of_int a \<le> media xs \<and> media xs \<le> of_int b"
proof -
  have n: "(0::rat) < of_nat (length xs)" using assms(1) by simp
  from sum_list_entre [OF assms(2)]
  have "(of_int (a * int (length xs)) :: rat) \<le> of_int (sum_list xs)"
       "(of_int (sum_list xs) :: rat) \<le> of_int (b * int (length xs))"
    by (simp_all only: of_int_le_iff)
  then show ?thesis
    using n by (simp add: media_def pos_le_divide_eq pos_divide_le_eq)
qed

text \<open>
  C5 (as amended). For a segment without rows the profile is the empty dictionary: it
  has no mean-age entry. For a segment with rows whose ages lie in [0, 120], the entry
  \<open>edad_promedio\<close> is the mean age rounded to one decimal, and it lies in [0, 120].
\<close>

theorem perfil_edad_promedio:
  "(filas df = [] \<longrightarrow> generar_perfil_segmento df = JDict [])
   \<and> (filas df \<noteq> [] \<longrightarrow> (\<forall>p\<in>set (filas df). 0 \<le> edad_persona p \<and> edad_persona p \<le> 120) \<longrightarrow>
        obtener (generar_perfil_segmento df) ''edad_promedio''
          = Some (JNum (redondear (media (map edad_persona (filas df))) 1))
        \<and> 0 \<le> redondear (media (map edad_persona (filas df))) 1
        \<and> redondear (media (map edad_persona (filas df))) 1 \<le> 120)"
proof (intro conjI impI)
  show "generar_perfil_segmento df = JDict []" if "filas df = []"
    using that by (simp add: generar_perfil_segmento_def)
next
  assume ne: "filas df \<noteq> []"
    and r: "\<forall>p\<in>set (filas df). 0 \<le> edad_persona p \<and> edad_persona p \<le> 120"
  show "obtener (generar_perfil_segmento df) ''edad_promedio''
          = Some (JNum (redondear (media (map edad_persona (filas df))) 1))"
    using ne by (simp add: generar_perfil_segmento_def Let_def)
  have "of_int 0 \<le> media (map edad_persona (filas df)) \<and> media (map edad_persona (filas df)) \<le> of_int 120"
    by (rule media_entre) (use ne r in auto)
  from redondear_entre [OF this [THEN conjunct1] this [THEN conjunct2], of 1]
  show "0 \<le> redondear (media (map edad_persona (filas df))) 1"
    and "redondear (media (map edad_persona (filas df))) 1 \<le> 120" by simp_all
qed

theorem perfil_edad_promedio_witness:
  "filas tabla_ejemplo \<noteq> []
   \<and> list_all (\<lambda>p. 0 \<le> edad_persona p \<and> edad_persona p \<le> 120) (filas tabla_ejemplo)
   \<and> obtener (generar_perfil_segmento tabla_ejemplo) ''edad_promedio'' = Some (JNum 66)
   \<and> filas tabla_sin_filas = []
   \<and> generar_perfil_segmento tabla_sin_filas = JDict []"
proof -
  have h1: "filas tabla_ejemplo \<noteq> []"
    by code_simp
  have h2: "list_all (\<lambda>p. 0 \<le> edad_persona p \<and> edad_persona p \<le> 120) (filas tabla_ejemplo)"
    by code_simp
  have m: "redondear (media (map edad_persona (filas tabla_ejemplo))) 1 = 66"
    by code_simp
  have h3: "filas tabla_sin_filas = []"
    by code_simp
  from perfil_edad_promedio [of tabla_ejemplo] perfil_edad_promedio [of tabla_sin_filas]
       h1 h2 h3 m
  show ?thesis by (simp add: list_all_iff)
qed

text \<open>
  C5 (as stated) fails for the empty segment: the profile returned is the empty
  dictionary, in which the mean age is a missing entry and not the value 0.0.
\<close>

theorem perfil_segmento_vacio_counterexample:
  "generar_perfil_segmento tabla_sin_filas = JDict []
   \<and> obtener (generar_perfil_segmento tabla_sin_filas) ''edad_promedio'' = None"
  by code_simp

section \<open>Properties of the eligibility analysis\<close>

text \<open>
  C2 (as amended). For a program that has its eligibility column, when the base
  filters leave no row, the analysis returns a result whose only entry is the key
  \<open>'error'\<close> with the message that no person meets the criteria; it carries no
  statistics and, unlike the error for an unknown program, no catalog.
\<close>

theorem elegibilidad_sin_filas:
  assumes "''es_elegible_'' @ programa \<in> set (columnas df)"
      and "aplicar_filtros_basicos re df rango ubic sex carencia = Inr sub"
      and "filas sub = []"
  shows "analizar_elegibilidad_programa re df programa rango ubic sex carencia
         = Inr (JDict [(''error'',
                  JStr ''No hay personas que cumplan los criterios especificados'')])"
  using assms by (simp add: analizar_elegibilidad_programa_def)

theorem elegibilidad_sin_filas_witness:
  "''es_elegible_'' @ ''inea'' \<in> set (columnas tabla_ejemplo)
   \<and> aplicar_filtros_basicos buscar_literal tabla_ejemplo (Some (0, 5)) None (Some ''M'') None
       = Inr tabla_sin_filas
   \<and> filas tabla_sin_filas = []
   \<and> analizar_elegibilidad_programa buscar_literal tabla_ejemplo ''inea'' (Some (0, 5)) None
         (Some ''M'') None
       = Inr (JDict [(''error'',
                JStr ''No hay personas que cumplan los criterios especificados'')])"
proof -
  have h1: "''es_elegible_'' @ ''inea'' \<in> set (columnas tabla_ejemplo)"
    by code_simp
  have h2: "aplicar_filtros_basicos buscar_literal tabla_ejemplo (Some (0, 5)) None
              (Some ''M'') None = Inr tabla_sin_filas"
    by code_simp
  have h3: "filas tabla_sin_filas = []"
    by code_simp
  from elegibilidad_sin_filas [OF h1 h2 h3] h1 h2 h3 show ?thesis by blast
qed

text \<open>
  C2 (as stated) fails: no person of the example table is between 200 and 300 years
  old, and the analysis of the adult-pension program for that age range is a result
  with the key \<open>'error'\<close>.
\<close>

theorem elegibilidad_sin_filas_counterexample:
  "aplicar_filtros_basicos buscar_literal tabla_ejemplo (Some (200, 300)) None None None
     = Inr tabla_sin_filas
   \<and> analizar_elegibilidad_programa buscar_literal tabla_ejemplo ''pension_adultos_mayores''
         (Some (200, 300)) None None None
       = Inr (JDict [(''error'',
                JStr ''No hay personas que cumplan los criterios especificados'')])
   \<and> tiene_clave ''error'' (JDict [(''error'',
                JStr ''No hay personas que cumplan los criterios especificados'')])"
  by code_simp







lemma indice_None: "indice xs v = None \<longleftrightarrow> v \<notin> set xs"
  by (induction xs) (auto split: option.splits)

lemma set_unicos: "set (unicos xs) = set xs"
  by (induction xs) auto

lemma set_value_counts: "set (map fst (value_counts xs)) = set xs"
proof -
  have "fst ` set (value_counts xs) = set (unicos xs)"
    by (force simp: value_counts_def)
  then show ?thesis by (simp add: set_unicos)
qed

lemma set_presentes: "set (presentes xs) = {v. Some v \<in> set xs}"
  by (induction xs) (auto simp: presentes_def split: option.splits)

text \<open>
  C10. The rank of the area compares the location string with the neighbourhood names
  by equality: for a location that is not exactly the name of a neighbourhood of the
  table, \<open>_obtener_ranking_colonia\<close> returns the empty dictionary, and so does the
  entry \<open>ranking_colonias\<close> of the geographic context, whatever rows the location
  filter matched.
\<close>

theorem ranking_colonia_vacio:
  assumes "Some ubic \<notin> set (map colonia (filas df))"
  shows "obtener_ranking_colonia df ubic = JDict []
       \<and> (\<forall>ctx. obtener_contexto_colonia re df ubic = Inr ctx
              \<longrightarrow> obtener ctx ''ranking_colonias'' = Some (JDict []))"
proof -
  have "ubic \<notin> set (map fst (value_counts (presentes (map colonia (filas df)))))"
    using assms by (simp only: set_value_counts set_presentes) simp
  then have "indice (map fst (value_counts (presentes (map colonia (filas df))))) ubic = None"
    using indice_None [of _ ubic] by blast
  then have r: "obtener_ranking_colonia df ubic = JDict []"
    by (simp add: obtener_ranking_colonia_def)
  then show ?thesis
    by (auto simp: obtener_contexto_colonia_def Let_def split: sum.splits)
qed

theorem ranking_colonia_vacio_witness:
  "Some ''centro'' \<notin> set (map colonia (filas tabla_ejemplo))
   \<and> filtro_ubicacion buscar_literal (Some ''centro'') tabla_ejemplo
       = Inr (tabla_ejemplo \<lparr> filas := [persona_a, persona_b] \<rparr>)
   \<and> obtener_ranking_colonia tabla_ejemplo ''centro'' = JDict []
   \<and> camino (projr (obtener_contexto_colonia buscar_literal tabla_ejemplo ''centro''))
        [''ranking_colonias''] = Some (JDict [])"
proof -
  have h: "Some ''centro'' \<notin> set (map colonia (filas tabla_ejemplo))"
    by code_simp
  have f: "filtro_ubicacion buscar_literal (Some ''centro'') tabla_ejemplo
       = Inr (tabla_ejemplo \<lparr> filas := [persona_a, persona_b] \<rparr>)"
    by code_simp
  have c: "obtener_contexto_colonia buscar_literal tabla_ejemplo ''centro''
            = Inr (projr (obtener_contexto_colonia buscar_literal tabla_ejemplo ''centro''))"
    by (simp add: obtener_contexto_colonia_def buscar_literal_def Let_def)
  from ranking_colonia_vacio [OF h, of buscar_literal] c h f show ?thesis
    by simp
qed

section \<open>Properties of the multi-deprivation intensity\<close>









section \<open>Properties of the age bins\<close>

text \<open>
  C4 at the age 120. The intervals of \<open>_agrupar_edades\<close> are closed on the left and
  open on the right, the last one too: the age 119 falls in the bin labelled "75+", and
  the age 120 falls in no bin. In the example table the person aged 120 gets the
  missing value as age group, where the persons aged 70 and 8 get a label.
\<close>

theorem agrupar_edades_120:
  "map snd (agrupar_edades tabla_ejemplo)
     = [Some (''60-74 a'' @ [CHR 0xF1] @ ''os''), Some (''0-17 a'' @ [CHR 0xF1] @ ''os''), None]
   \<and> pd_cut bins labels 119 = Some (''75+ a'' @ [CHR 0xF1] @ ''os'')
   \<and> pd_cut bins labels 120 = None"
  by code_simp

end
